theory Spec2Isabelle
  imports Main
begin

section \<open>JavaScript values\<close>

text \<open>
  The view is written in JavaScript, where a property may hold \<^verbatim>\<open>null\<close>,
  \<^verbatim>\<open>undefined\<close>, a number or a string, and where the strict comparison
  \<^verbatim>\<open>x === null\<close> tells \<^verbatim>\<open>null\<close> from \<^verbatim>\<open>undefined\<close>.  Positions and line
  numbers are GraphQL \<^verbatim>\<open>Int\<close>s, so numbers are modelled as \<^typ>\<open>int\<close>.
\<close>

datatype jsval = JNull | JUndefined | JNum int | JStr string

text \<open>Reading a property of \<^verbatim>\<open>undefined\<close> or \<^verbatim>\<open>null\<close> throws a \<^verbatim>\<open>TypeError\<close>.\<close>

datatype error = TypeError

text \<open>\<^verbatim>\<open>!v\<close> is true for \<^verbatim>\<open>null\<close>, \<^verbatim>\<open>undefined\<close>, \<^verbatim>\<open>0\<close> and the empty string.\<close>

definition falsy :: "jsval \<Rightarrow> bool" where
  "falsy v = (case v of JNull \<Rightarrow> True | JUndefined \<Rightarrow> True | JNum n \<Rightarrow> n = 0 | JStr s \<Rightarrow> s = [])"

text \<open>\<^verbatim>\<open>Map.prototype.get\<close> answers \<^verbatim>\<open>undefined\<close> for a key that is not mapped.\<close>

definition mapGet :: "('k \<rightharpoonup> int) \<Rightarrow> 'k \<Rightarrow> jsval" where
  "mapGet m k = (case m k of None \<Rightarrow> JUndefined | Some n \<Rightarrow> JNum n)"

text \<open>\<^verbatim>\<open>xs[i]\<close> on an array is \<^verbatim>\<open>undefined\<close> (here \<open>None\<close>) outside \<open>0 .. length - 1\<close>.\<close>

definition arrayIndex :: "'a list \<Rightarrow> int \<Rightarrow> 'a option" where
  "arrayIndex xs i = (if 0 \<le> i \<and> i < int (length xs) then Some (xs ! nat i) else None)"

subsection \<open>Numbers as text\<close>

text \<open>
  \<^verbatim>\<open>String(n)\<close> of an integer is its decimal numeral, with a leading minus sign below
  zero.  React shows a number child of an element as that text, a string child as itself
  and \<^verbatim>\<open>null\<close> or \<^verbatim>\<open>undefined\<close> as nothing.
\<close>

definition digit :: "nat \<Rightarrow> char" where
  "digit d = ''0123456789'' ! d"

function showNat :: "nat \<Rightarrow> string" where
  "showNat n = (if n < 10 then [digit n] else showNat (n div 10) @ [digit (n mod 10)])"
  by pat_completeness auto
termination
  by (relation "measure id") auto

declare showNat.simps [simp del]

definition showInt :: "int \<Rightarrow> string" where
  "showInt i = (if i < 0 then CHR ''-'' # showNat (nat (- i)) else showNat (nat i))"

definition childText :: "jsval \<Rightarrow> string" where
  "childText v = (case v of JNull \<Rightarrow> [] | JUndefined \<Rightarrow> [] | JNum n \<Rightarrow> showInt n | JStr s \<Rightarrow> s)"

section \<open>The data the view is given\<close>

text \<open>
  The \<^verbatim>\<open>state\<close> of a review or of a comment is a GraphQL enumeration value; the view
  compares it with the literals \<^verbatim>\<open>'PENDING'\<close> and \<^verbatim>\<open>'COMMENTED'\<close> and looks the
  review's up in a table of three.
\<close>

datatype state = PENDING | COMMENTED | APPROVED | CHANGES_REQUESTED | DISMISSED | SUBMITTED

record author =
  login :: string
  avatarUrl :: string

text \<open>
  A review comment.  \<open>comment_position\<close> is \<open>None\<close> for \<^verbatim>\<open>position: null\<close>, and
  \<open>comment_author\<close> is \<open>None\<close> for \<^verbatim>\<open>author: null\<close>.  The creation time and the
  permalink are handed to child components unread and are left out.
\<close>

record reviewComment =
  comment_id :: string
  comment_author :: "author option"
  comment_bodyHTML :: string
  comment_path :: string
  comment_position :: "int option"
  comment_isMinimized :: bool
  comment_state :: state

record reviewThread =
  thread_id :: string
  thread_isResolved :: bool
  thread_resolvedBy :: "author option"

record commentThread =
  thread :: reviewThread
  comments :: "reviewComment list"

record review =
  review_id :: string
  review_state :: state
  review_bodyHTML :: string
  review_author :: "author option"
  review_submittedAt :: string

subsection \<open>Comment translations\<close>

text \<open>
  The structure documented beside the \<^verbatim>\<open>commentTranslations\<close> prop: per relative path,
  \<^verbatim>\<open>diffToFilePosition: Map<rawPosition, adjustedPosition>\<close> and
  \<^verbatim>\<open>fileTranslations: null | Map<adjustedPosition, {newPosition}>\<close>.  The fields
  \<^verbatim>\<open>rawPositions\<close> and \<^verbatim>\<open>digest\<close> are never read by the view.  The prop itself is
  \<^verbatim>\<open>null\<close>, absent (\<^verbatim>\<open>undefined\<close>) or such a map.
\<close>

record fileTranslation =
  newPosition :: int

record translationsForFile =
  diffToFilePosition :: "int \<rightharpoonup> int"
  fileTranslations :: "(int \<rightharpoonup> fileTranslation) option"

datatype translationsProp =
  TNull | TUndefined | TMap "string \<rightharpoonup> translationsForFile"

subsection \<open>Props\<close>

text \<open>
  The props the modelled methods read.  \<open>postingToThreadID\<close> and \<open>scrollToThreadID\<close>
  are optional strings, so they are JavaScript values; \<open>threadIDsOpen\<close> is the set
  whose \<^verbatim>\<open>has\<close> the view calls; \<open>checkoutOp_isEnabled\<close> stands for
  \<^verbatim>\<open>checkoutOp.isEnabled()\<close> and \<open>isCheckedOutPullRequest\<close> for
  \<^verbatim>\<open>checkoutOp.why() === checkoutStates.CURRENT\<close>.
\<close>

record props =
  summaries :: "review list"
  commentThreads :: "commentThread list"
  summarySectionOpen :: bool
  commentSectionOpen :: bool
  threadIDsOpen :: "string set"
  postingToThreadID :: jsval
  scrollToThreadID :: jsval
  commentTranslations :: translationsProp
  checkoutOp_isEnabled :: bool
  isCheckedOutPullRequest :: bool
  number :: int
  repo :: string
  owner :: string

section \<open>The position translator\<close>

record translatedPosition =
  lineNumber :: jsval
  positionText :: jsval

text \<open>
  \<^verbatim>\<open>parseInt(position, 10)\<close> writes the number out in decimal and reads it back, which
  leaves a GraphQL \<^verbatim>\<open>Int\<close> as it is.
\<close>

definition parseInt :: "int \<Rightarrow> int" where
  "parseInt n = n"

text \<open>
  \<^verbatim>\<open>translationsForFile.fileTranslations.get(lineNumber).newPosition\<close>: the lookup of a
  key that is not mapped (\<^verbatim>\<open>undefined\<close> is never a key of a map of numbers) gives
  \<^verbatim>\<open>undefined\<close>, whose property access throws.
\<close>

definition getNewPosition :: "(int \<rightharpoonup> fileTranslation) \<Rightarrow> jsval \<Rightarrow> error + jsval" where
  "getNewPosition ft line =
     (case line of
        JNum adjusted \<Rightarrow>
          (case ft adjusted of
             None \<Rightarrow> Inl TypeError
           | Some entry \<Rightarrow> Inr (JNum (newPosition entry)))
      | _ \<Rightarrow> Inl TypeError)"

text \<open>
  The method \<^verbatim>\<open>getTranslatedPosition(rootComment)\<close>, with the two props it reads as
  arguments.  The branches are the source's: \<^verbatim>\<open>translations === null\<close>, then
  \<^verbatim>\<open>rootComment.position === null\<close>, then the lookups, where
  \<^verbatim>\<open>translations.get(path)\<close> of an absent prop or an absent path throws at the next
  property access.  A \<^verbatim>\<open>fileTranslations\<close> that is \<^verbatim>\<open>null\<close> or absent is falsy, a map
  is truthy.  The last assignment is \<^verbatim>\<open>positionText = lineNumber\<close>.
\<close>

definition getTranslatedPosition ::
  "translationsProp \<Rightarrow> bool \<Rightarrow> reviewComment \<Rightarrow> error + translatedPosition" where
  "getTranslatedPosition translations checkedOut rootComment =
     (case translations of
        TNull \<Rightarrow> Inr \<lparr>lineNumber = JNull, positionText = JStr ''''\<rparr>
      | _ \<Rightarrow>
        (case comment_position rootComment of
           None \<Rightarrow> Inr \<lparr>lineNumber = JNull, positionText = JStr ''outdated''\<rparr>
         | Some position \<Rightarrow>
           (case translations of
              TMap m \<Rightarrow>
                (case m (comment_path rootComment) of
                   None \<Rightarrow> Inl TypeError
                 | Some forFile \<Rightarrow>
                     (let found = mapGet (diffToFilePosition forFile) (parseInt position)
                      in case (case (fileTranslations forFile, checkedOut) of
                                 (Some ft, True) \<Rightarrow> getNewPosition ft found
                               | _ \<Rightarrow> Inr found) of
                           Inl e \<Rightarrow> Inl e
                         | Inr line \<Rightarrow> Inr \<lparr>lineNumber = line, positionText = line\<rparr>))
            | _ \<Rightarrow> Inl TypeError)))"

section \<open>Review summaries\<close>

record summaryElement =
  summary_key :: string
  summary_icon :: string
  summary_avatarSrc :: string
  summary_username :: string
  summary_copy :: string
  summary_time :: string
  summary_html :: string
  summary_reactable :: review

text \<open>The table \<^verbatim>\<open>reviewTypes\<close> with its default \<^verbatim>\<open>{icon: '', copy: ''}\<close>.\<close>

definition reviewTypes :: "state \<Rightarrow> string \<times> string" where
  "reviewTypes type =
     (case type of
        APPROVED \<Rightarrow> (''icon-check'', ''approved these changes'')
      | COMMENTED \<Rightarrow> (''icon-comment'', ''commented'')
      | CHANGES_REQUESTED \<Rightarrow> (''icon-alert'', ''requested changes'')
      | _ \<Rightarrow> ('''', ''''))"

text \<open>\<^verbatim>\<open>renderReviewSummary\<close>: \<open>None\<close> is the \<^verbatim>\<open>null\<close> it returns for a filtered review.\<close>

definition renderReviewSummary :: "review \<Rightarrow> summaryElement option" where
  "renderReviewSummary r =
     (let (icon, copy) = reviewTypes (review_state r) in
      if review_state r = PENDING \<or> (review_state r = COMMENTED \<and> review_bodyHTML r = '''')
      then None
      else
        (let reviewAuthor = (case review_author r of Some a \<Rightarrow> login a | None \<Rightarrow> '''') in
         Some \<lparr>summary_key = review_id r,
               summary_icon = icon,
               summary_avatarSrc = (case review_author r of Some a \<Rightarrow> avatarUrl a | None \<Rightarrow> ''''),
               summary_username = reviewAuthor,
               summary_copy = copy,
               summary_time = review_submittedAt r,
               summary_html = review_bodyHTML r,
               summary_reactable = r\<rparr>))"

datatype summariesView =
  EmptyState string
| SummariesSection bool "summaryElement option list"

text \<open>\<^verbatim>\<open>renderEmptyState\<close>, of which the link target is kept.\<close>

definition renderEmptyState :: "props \<Rightarrow> summariesView" where
  "renderEmptyState P =
     EmptyState (''https://www.github.com/'' @ owner P @ ''/'' @ repo P @ ''/pull/''
                 @ showInt (number P) @ ''/files/'')"

definition renderReviewSummaries :: "props \<Rightarrow> summariesView" where
  "renderReviewSummaries P =
     (if length (summaries P) = 0 then renderEmptyState P
      else SummariesSection (summarySectionOpen P) (map renderReviewSummary (summaries P)))"

text \<open>React renders an array of children in order and renders nothing for a \<^verbatim>\<open>null\<close>.\<close>

fun shownChildren :: "'a option list \<Rightarrow> 'a list" where
  "shownChildren [] = []"
| "shownChildren (None # cs) = shownChildren cs"
| "shownChildren (Some c # cs) = c # shownChildren cs"

text \<open>The summaries on screen: the children of the section, none in the empty state.\<close>

definition renderedSummaries :: "summariesView \<Rightarrow> summaryElement list" where
  "renderedSummaries v =
     (case v of EmptyState url \<Rightarrow> [] | SummariesSection sectionOpen cs \<Rightarrow> shownChildren cs)"

section \<open>Comment threads\<close>

record shownComment =
  shown_key :: string
  shown_pendingClass :: bool
  shown_avatarSrc :: string
  shown_login :: string
  shown_pendingBadge :: bool
  shown_html :: string

datatype commentElement =
  HiddenComment string
| ShownComment shownComment

text \<open>
  \<^verbatim>\<open>renderComment\<close>.  A minimized comment returns the placeholder at once.  Otherwise
  \<^verbatim>\<open>comment.author.login\<close> is read without a guard, which throws for a comment with no
  author.
\<close>

definition renderComment :: "reviewComment \<Rightarrow> error + commentElement" where
  "renderComment c =
     (if comment_isMinimized c then Inr (HiddenComment (comment_id c))
      else
        (case comment_author c of
           None \<Rightarrow> Inl TypeError
         | Some a \<Rightarrow>
             Inr (ShownComment
               \<lparr>shown_key = comment_id c,
                shown_pendingClass = (comment_state c = PENDING),
                shown_avatarSrc = avatarUrl a,
                shown_login = login a,
                shown_pendingBadge = (comment_state c = PENDING),
                shown_html = comment_bodyHTML c\<rparr>)))"

text \<open>An array \<^verbatim>\<open>map\<close> whose callback may throw: the first throw ends it.\<close>

fun mapThrowing :: "('a \<Rightarrow> error + 'b) \<Rightarrow> 'a list \<Rightarrow> error + 'b list" where
  "mapThrowing f [] = Inr []"
| "mapThrowing f (x # xs) =
     (case f x of
        Inl e \<Rightarrow> Inl e
      | Inr y \<Rightarrow> (case mapThrowing f xs of Inl e \<Rightarrow> Inl e | Inr ys \<Rightarrow> Inr (y # ys)))"

record threadBody =
  body_comments :: "commentElement list"
  reply_disabledClass :: bool
  reply_threadId :: string
  editor_readOnly :: bool
  resolvedText :: "string option"
  replyButton_disabled :: bool
  resolveButton_title :: string

text \<open>\<^verbatim>\<open>renderResolveButton\<close>, of which the title is kept.\<close>

definition renderResolveButton :: "reviewThread \<Rightarrow> string" where
  "renderResolveButton t =
     (if thread_isResolved t then ''Unresolve conversation'' else ''Resolve conversation'')"

text \<open>
  \<^verbatim>\<open>renderThread\<close>.  \<^verbatim>\<open>isPosting\<close> is \<^verbatim>\<open>this.props.postingToThreadID !== null\<close>.  The
  line "marked as resolved by" reads \<^verbatim>\<open>thread.resolvedBy.login\<close> without a guard.
\<close>

definition renderThread :: "props \<Rightarrow> reviewThread \<Rightarrow> reviewComment list \<Rightarrow> error + threadBody" where
  "renderThread P t cs =
     (let isPosting = (postingToThreadID P \<noteq> JNull) in
      case mapThrowing renderComment cs of
        Inl e \<Rightarrow> Inl e
      | Inr shown \<Rightarrow>
          (case (if thread_isResolved t
                 then (case thread_resolvedBy t of
                         None \<Rightarrow> Inl TypeError
                       | Some a \<Rightarrow> Inr (Some (login a)))
                 else Inr None) of
             Inl e \<Rightarrow> Inl e
           | Inr resolved \<Rightarrow>
               Inr \<lparr>body_comments = shown,
                    reply_disabledClass = isPosting,
                    reply_threadId = thread_id t,
                    editor_readOnly = isPosting,
                    resolvedText = resolved,
                    replyButton_disabled = isPosting,
                    resolveButton_title = renderResolveButton t\<rparr>))"

record threadElement =
  element_id :: string
  element_open :: bool
  element_resolved :: bool
  element_highlight :: bool
  element_lineNr :: string
  element_outdated :: bool
  element_dataLine :: jsval
  element_jumpDisabled :: bool
  element_diffLine :: "int option"
  element_patchPreview :: bool
  element_thread :: threadBody

text \<open>
  \<^verbatim>\<open>renderReviewCommentThread\<close>.  A pair with no comment renders \<^verbatim>\<open>null\<close>.  The
  translated position comes first and may throw; the summary line then reads
  \<^verbatim>\<open>rootComment.author.login\<close> without a guard.  The file name's split into directory
  and base name by Node's \<^verbatim>\<open>path.parse\<close> is left out.
\<close>

definition renderReviewCommentThread :: "props \<Rightarrow> commentThread \<Rightarrow> error + threadElement option" where
  "renderReviewCommentThread P commentThread =
     (case arrayIndex (comments commentThread) 0 of
        None \<Rightarrow> Inr None
      | Some rootComment \<Rightarrow>
          (case getTranslatedPosition (commentTranslations P) (isCheckedOutPullRequest P) rootComment of
             Inl e \<Rightarrow> Inl e
           | Inr translated \<Rightarrow>
               (case comment_author rootComment of
                  None \<Rightarrow> Inl TypeError
                | Some a \<Rightarrow>
                    (case renderThread P (thread commentThread) (comments commentThread) of
                       Inl e \<Rightarrow> Inl e
                     | Inr body \<Rightarrow>
                         Inr (Some
                           \<lparr>element_id = ''review-thread-'' @ thread_id (thread commentThread),
                            element_open = (thread_id (thread commentThread) \<in> threadIDsOpen P),
                            element_resolved = thread_isResolved (thread commentThread),
                            element_highlight =
                              (scrollToThreadID P = JStr (thread_id (thread commentThread))),
                            element_lineNr = childText (positionText translated),
                            element_outdated = falsy (lineNumber translated),
                            element_dataLine = lineNumber translated,
                            element_jumpDisabled = checkoutOp_isEnabled P,
                            element_diffLine = comment_position rootComment,
                            element_patchPreview = (comment_position rootComment \<noteq> None),
                            element_thread = body\<rparr>)))))"

record commentsSection =
  section_open :: bool
  count_resolved :: nat
  count_total :: nat
  count_text :: string
  progress_value :: nat
  progress_max :: nat
  section_threads :: "threadElement option list"

text \<open>
  \<^verbatim>\<open>renderReviewCommentThreads\<close>: nothing for an empty array; otherwise the header with
  the count of resolved pairs and the length, and one child per pair.  \<open>count_text\<close> is
  the text of the \<^verbatim>\<open>github-Reviews-count\<close> span: the word, a space, the first number, a
  space, "of", a space, the second number.
\<close>

definition renderReviewCommentThreads :: "props \<Rightarrow> error + commentsSection option" where
  "renderReviewCommentThreads P =
     (if length (commentThreads P) = 0 then Inr None
      else
        (let resolvedThreads = length (filter (\<lambda>pair. thread_isResolved (thread pair)) (commentThreads P)) in
         case mapThrowing (renderReviewCommentThread P) (commentThreads P) of
           Inl e \<Rightarrow> Inl e
         | Inr children \<Rightarrow>
             Inr (Some
               \<lparr>section_open = commentSectionOpen P,
                count_resolved = resolvedThreads,
                count_total = length (commentThreads P),
                count_text = ''Resolved'' @ '' '' @ showNat resolvedThreads @ '' '' @ ''of''
                             @ '' '' @ showNat (length (commentThreads P)),
                progress_value = resolvedThreads,
                progress_max = length (commentThreads P),
                section_threads = children\<rparr>)))"

section \<open>Replying to a thread\<close>

text \<open>
  Modelled from the spec: the class \<^verbatim>\<open>RefHolder\<close> (\<^verbatim>\<open>lib/models/ref-holder\<close>) is not
  among the sources.  The spec calls the reply holders "per-thread/per-reply mutable UI
  handles (draft text holders) keyed by entity id".  A holder is empty or holds the
  editor it was given; \<^verbatim>\<open>map\<close> applies a function to what it holds and \<^verbatim>\<open>getOr\<close>
  gives what it holds, or the default when it is empty.  The editor is known by its text.
\<close>

type_synonym 'a refHolder = "'a option"

definition holder_map :: "('a \<Rightarrow> 'b) \<Rightarrow> 'a refHolder \<Rightarrow> 'b refHolder" where
  "holder_map f h = (case h of None \<Rightarrow> None | Some x \<Rightarrow> Some (f x))"

definition getOr :: "'a refHolder \<Rightarrow> 'a \<Rightarrow> 'a" where
  "getOr h d = (case h of None \<Rightarrow> d | Some x \<Rightarrow> x)"

text \<open>
  The arguments of one call of the prop \<^verbatim>\<open>addSingleComment\<close>, and what a reply can
  change: the reply holder of the thread, and the calls of \<^verbatim>\<open>addSingleComment\<close> made
  so far.  The sixth argument of the call, the two callbacks, act on that state.
\<close>

record addSingleCommentArgs =
  arg_body :: string
  arg_threadID :: string
  arg_commentID :: string
  arg_path :: string
  arg_position :: "int option"

record world =
  replyHolder :: "string refHolder"
  posted :: "addSingleCommentArgs list"

record callbacks =
  didSubmitComment :: "world \<Rightarrow> world"
  didFailComment :: "world \<Rightarrow> world"

text \<open>\<^verbatim>\<open>editor.getText()\<close> and \<^verbatim>\<open>editor.setText(text, {bypassReadOnly: true})\<close>.\<close>

definition getText :: "string \<Rightarrow> string" where
  "getText editor = editor"

definition setText :: "string \<Rightarrow> string \<Rightarrow> string" where
  "setText text editor = text"

text \<open>
  \<^verbatim>\<open>submitReply(replyHolder, thread, lastComment)\<close>.  The body is read first; the
  arguments of the call are then evaluated, and \<^verbatim>\<open>lastComment.id\<close> throws when
  \<^verbatim>\<open>lastComment\<close> is \<^verbatim>\<open>undefined\<close>, before anything is called.
\<close>

definition submitReply ::
  "world \<Rightarrow> reviewThread \<Rightarrow> reviewComment option \<Rightarrow> error + world \<times> callbacks" where
  "submitReply w t lastComment =
     (let body = getOr (holder_map getText (replyHolder w)) '''';
          didSubmit = (\<lambda>w'. w'\<lparr>replyHolder := holder_map (setText '''') (replyHolder w')\<rparr>);
          didFail = (\<lambda>w'. w'\<lparr>replyHolder := holder_map (setText body) (replyHolder w')\<rparr>)
      in case lastComment of
           None \<Rightarrow> Inl TypeError
         | Some l \<Rightarrow>
             Inr (w\<lparr>posted := posted w @
                    [\<lparr>arg_body = body, arg_threadID = thread_id t, arg_commentID = comment_id l,
                      arg_path = comment_path l, arg_position = comment_position l\<rparr>]\<rparr>,
                  \<lparr>didSubmitComment = didSubmit, didFailComment = didFail\<rparr>))"


text \<open>
  The handler \<^verbatim>\<open>submitCurrentComment\<close> of the command \<^verbatim>\<open>github:submit-comment\<close>.  The
  thread id is read from the \<^verbatim>\<open>data-thread-id\<close> of the reply box (\<open>None\<close> when the
  attribute is absent); \<open>replyHolders\<close> is the view's map \<^verbatim>\<open>this.replyHolders\<close> from
  thread ids to reply holders and \<open>calls\<close> the calls of \<^verbatim>\<open>addSingleComment\<close> made so
  far.  A falsy id returns \<^verbatim>\<open>null\<close>; destructuring the result of \<^verbatim>\<open>find\<close> throws when
  no pair has the id, and \<^verbatim>\<open>replyHolder.map\<close> throws when the map has no holder for it.
  The handler does not read \<^verbatim>\<open>postingToThreadID\<close>.
\<close>

definition submitCurrentComment ::
  "props \<Rightarrow> (string \<rightharpoonup> string refHolder) \<Rightarrow> addSingleCommentArgs list \<Rightarrow> string option
     \<Rightarrow> error + (world \<times> callbacks) option" where
  "submitCurrentComment P replyHolders calls dataThreadId =
     (case dataThreadId of
        None \<Rightarrow> Inr None
      | Some threadID \<Rightarrow>
          if threadID = [] then Inr None
          else
            (case find (\<lambda>each. thread_id (thread each) = threadID) (commentThreads P) of
               None \<Rightarrow> Inl TypeError
             | Some found \<Rightarrow>
                 (case replyHolders threadID of
                    None \<Rightarrow> Inl TypeError
                  | Some holder \<Rightarrow>
                      (case submitReply \<lparr>replyHolder = holder, posted = calls\<rparr> (thread found)
                              (arrayIndex (comments found) (int (length (comments found)) - 1)) of
                         Inl e \<Rightarrow> Inl e
                       | Inr submitted \<Rightarrow> Inr (Some submitted)))))"

text \<open>The calls of \<^verbatim>\<open>addSingleComment\<close> on record after a run of the command.\<close>

definition callsMade :: "error + (world \<times> callbacks) option \<Rightarrow> addSingleCommentArgs list" where
  "callsMade r = (case r of Inr (Some (w, cb)) \<Rightarrow> posted w | _ \<Rightarrow> [])"

section \<open>Refreshing\<close>

text \<open>
  The state the refresh button works on: the flag \<^verbatim>\<open>state.isRefreshing\<close>, the
  subscriptions held by \<^verbatim>\<open>this.subs\<close>, and a record of what went out: how often the prop
  \<^verbatim>\<open>refetch\<close> was called and which subscriptions were disposed.  The subscription that
  the \<open>n\<close>-th call of \<^verbatim>\<open>refetch\<close> returns is known by the number \<open>n\<close>.

  \<^verbatim>\<open>CompositeDisposable\<close> is the one of the library event-kit: \<^verbatim>\<open>add\<close> and \<^verbatim>\<open>remove\<close>
  change the collection unless it has been disposed, and \<^verbatim>\<open>dispose\<close> disposes every
  member, empties the collection and marks it disposed.
\<close>

record view =
  isRefreshing :: bool
  subs :: "nat list"
  subs_disposed :: bool
  refetchCalls :: nat
  disposedSubs :: "nat list"

definition subs_add :: "nat \<Rightarrow> view \<Rightarrow> view" where
  "subs_add sub v = (if subs_disposed v then v else v\<lparr>subs := List.insert sub (subs v)\<rparr>)"

definition subs_remove :: "nat \<Rightarrow> view \<Rightarrow> view" where
  "subs_remove sub v = (if subs_disposed v then v else v\<lparr>subs := removeAll sub (subs v)\<rparr>)"

definition subs_dispose :: "view \<Rightarrow> view" where
  "subs_dispose v =
     (if subs_disposed v then v
      else v\<lparr>subs_disposed := True, disposedSubs := disposedSubs v @ subs v, subs := []\<rparr>)"

text \<open>The constructor: \<^verbatim>\<open>isRefreshing: false\<close> and a new \<^verbatim>\<open>CompositeDisposable\<close>.\<close>

definition constructor :: view where
  "constructor = \<lparr>isRefreshing = False, subs = [], subs_disposed = False,
                  refetchCalls = 0, disposedSubs = []\<rparr>"

text \<open>
  The click handler \<^verbatim>\<open>refresh\<close> of \<^verbatim>\<open>renderHeader\<close>, and the completion callback it
  hands to \<^verbatim>\<open>refetch\<close> for the subscription \<open>sub\<close>.  React applies the \<^verbatim>\<open>setState\<close> of
  a handler before the next event is handled, so each handler reads the flag as it was
  last written; \<^verbatim>\<open>refetch\<close> completes after it has returned its subscription.
\<close>

definition refresh :: "view \<Rightarrow> view" where
  "refresh v =
     (if isRefreshing v then v
      else
        (let v1 = v\<lparr>isRefreshing := True\<rparr>;
             sub = refetchCalls v1;
             v2 = v1\<lparr>refetchCalls := Suc (refetchCalls v1)\<rparr>
         in subs_add sub v2))"

definition refetchCallback :: "nat \<Rightarrow> view \<Rightarrow> view" where
  "refetchCallback sub v = (subs_remove sub v)\<lparr>isRefreshing := False\<rparr>"

definition componentWillUnmount :: "view \<Rightarrow> view" where
  "componentWillUnmount v = subs_dispose v"

text \<open>
  What happens to a mounted view: a click on the refresh button, or the completion of the
  refetch with subscription \<open>sub\<close>.  The data layer completes a refetch at most once, and
  only one that is in flight: \<open>completesInFlight\<close> says so of a sequence of events.
\<close>

datatype event = ClickRefresh | RefetchCompleted nat

fun step :: "view \<Rightarrow> event \<Rightarrow> view" where
  "step v ClickRefresh = refresh v"
| "step v (RefetchCompleted sub) = refetchCallback sub v"

fun completesInFlight :: "view \<Rightarrow> event list \<Rightarrow> bool" where
  "completesInFlight v [] = True"
| "completesInFlight v (ClickRefresh # es) = completesInFlight (step v ClickRefresh) es"
| "completesInFlight v (RefetchCompleted sub # es) =
     (sub \<in> set (subs v) \<and> completesInFlight (step v (RefetchCompleted sub)) es)"

section \<open>Test data\<close>

text \<open>
  The three threads of the view's test suite and its translation tables, which map the
  position of each root comment to itself.  The third thread is built from the builder's
  defaults, which are not among the sources; the values below stand for them.
\<close>

definition comment0 :: reviewComment where
  "comment0 = \<lparr>comment_id = ''0'', comment_author = Some \<lparr>login = ''user0'', avatarUrl = ''user0.jpg''\<rparr>,
     comment_bodyHTML = ''i have opinions.'', comment_path = ''dir/file0'',
     comment_position = Some 10, comment_isMinimized = False, comment_state = SUBMITTED\<rparr>"

definition comment1 :: reviewComment where
  "comment1 = \<lparr>comment_id = ''1'', comment_author = Some \<lparr>login = ''user1'', avatarUrl = ''user1.jpg''\<rparr>,
     comment_bodyHTML = ''i disagree.'', comment_path = ''file0'',
     comment_position = Some 10, comment_isMinimized = True, comment_state = SUBMITTED\<rparr>"

definition comment2 :: reviewComment where
  "comment2 = \<lparr>comment_id = ''2'', comment_author = Some \<lparr>login = ''dolphin'', avatarUrl = ''pic-of-dolphin''\<rparr>,
     comment_bodyHTML = ''thanks for all the fish'', comment_path = ''file1'',
     comment_position = Some 20, comment_isMinimized = False, comment_state = SUBMITTED\<rparr>"

definition comment3 :: reviewComment where
  "comment3 = \<lparr>comment_id = ''3'', comment_author = Some \<lparr>login = ''someone'', avatarUrl = ''avatar''\<rparr>,
     comment_bodyHTML = ''shhhh'', comment_path = ''file1'',
     comment_position = Some 20, comment_isMinimized = False, comment_state = PENDING\<rparr>"

definition comment4 :: reviewComment where
  "comment4 = \<lparr>comment_id = ''4'', comment_author = Some \<lparr>login = ''someone'', avatarUrl = ''avatar''\<rparr>,
     comment_bodyHTML = ''Lorem ipsum'', comment_path = ''first.txt'',
     comment_position = Some 1, comment_isMinimized = False, comment_state = SUBMITTED\<rparr>"

definition thread0 :: commentThread where
  "thread0 = \<lparr>thread = \<lparr>thread_id = ''abcd'', thread_isResolved = False, thread_resolvedBy = None\<rparr>,
               comments = [comment0, comment1]\<rparr>"

definition thread1 :: commentThread where
  "thread1 = \<lparr>thread = \<lparr>thread_id = ''thread1'', thread_isResolved = False, thread_resolvedBy = None\<rparr>,
               comments = [comment2, comment3]\<rparr>"

definition thread2 :: commentThread where
  "thread2 = \<lparr>thread = \<lparr>thread_id = ''thread2'', thread_isResolved = True,
                          thread_resolvedBy = Some \<lparr>login = ''resolver'', avatarUrl = ''avatar''\<rparr>\<rparr>,
               comments = [comment4]\<rparr>"

definition selfTable :: "int \<Rightarrow> translationsForFile" where
  "selfTable position = \<lparr>diffToFilePosition = [position \<mapsto> position], fileTranslations = None\<rparr>"

definition testTranslations :: translationsProp where
  "testTranslations =
     TMap [''dir/file0'' \<mapsto> selfTable 10, ''file1'' \<mapsto> selfTable 20, ''first.txt'' \<mapsto> selfTable 1]"

text \<open>A file with local edits: line 10 of the fetched file is now line 12.\<close>

definition editedTable :: translationsForFile where
  "editedTable = \<lparr>diffToFilePosition = [10 \<mapsto> 10],
                   fileTranslations = Some [10 \<mapsto> \<lparr>newPosition = 12\<rparr>]\<rparr>"

text \<open>
  The props of the test suite's \<^verbatim>\<open>buildApp\<close>, which leaves \<^verbatim>\<open>postingToThreadID\<close> and
  \<^verbatim>\<open>scrollToThreadID\<close> out, and the props of its "comment threads" block.
\<close>

definition buildApp :: props where
  "buildApp = \<lparr>summaries = [], commentThreads = [], summarySectionOpen = True,
     commentSectionOpen = True, threadIDsOpen = {}, postingToThreadID = JUndefined,
     scrollToThreadID = JUndefined, commentTranslations = TNull,
     checkoutOp_isEnabled = False, isCheckedOutPullRequest = True,
     number = 100, repo = ''github'', owner = ''atom''\<rparr>"

definition threadsApp :: props where
  "threadsApp = buildApp\<lparr>commentThreads := [thread0, thread1, thread2],
                         commentTranslations := testTranslations\<rparr>"

definition summary0 :: review where
  "summary0 = \<lparr>review_id = ''0'', review_state = APPROVED, review_bodyHTML = ''looks good'',
     review_author = Some \<lparr>login = ''reviewer'', avatarUrl = ''avatar''\<rparr>,
     review_submittedAt = ''2019-01-01T10:00:00Z''\<rparr>"

definition summaryPending :: review where
  "summaryPending = summary0\<lparr>review_id := ''1'', review_state := PENDING\<rparr>"

definition summaryEmptyComment :: review where
  "summaryEmptyComment =
     summary0\<lparr>review_id := ''2'', review_state := COMMENTED, review_bodyHTML := ''''\<rparr>"

definition summaryComment :: review where
  "summaryComment =
     summary0\<lparr>review_id := ''3'', review_state := COMMENTED, review_bodyHTML := ''nice''\<rparr>"

text \<open>The same threads while a comment is being posted to the first one.\<close>

definition postingApp :: props where
  "postingApp = threadsApp\<lparr>postingToThreadID := JStr ''abcd''\<rparr>"

text \<open>A table for the first file that knows position 11 only, with local edits.\<close>

definition otherTable :: translationsForFile where
  "otherTable = \<lparr>diffToFilePosition = [11 \<mapsto> 11],
                  fileTranslations = Some [11 \<mapsto> \<lparr>newPosition = 13\<rparr>]\<rparr>"

text \<open>A reply editor that holds the text of the test suite's mini editor.\<close>

definition contentWorld :: world where
  "contentWorld = \<lparr>replyHolder = Some ''content'', posted = []\<rparr>"

text \<open>
  A table whose second stage does not know the adjusted position: position 10 is mapped
  to line 10, and the local edits are known for line 11 only.
\<close>

definition staleTable :: translationsForFile where
  "staleTable = \<lparr>diffToFilePosition = [10 \<mapsto> 10],
                  fileTranslations = Some [11 \<mapsto> \<lparr>newPosition = 13\<rparr>]\<rparr>"

text \<open>A table for the first file that knows no position, with no local edits.\<close>

definition emptyTable :: translationsForFile where
  "emptyTable = \<lparr>diffToFilePosition = (\<lambda>position. None), fileTranslations = None\<rparr>"

text \<open>The threads of the test suite over that table, with the pull request not checked out.\<close>

definition unmappedApp :: props where
  "unmappedApp = threadsApp\<lparr>commentTranslations := TMap [''dir/file0'' \<mapsto> emptyTable],
                            isCheckedOutPullRequest := False\<rparr>"

text \<open>The reply holders of the view once the mini editor sits in the first thread's.\<close>

definition testReplyHolders :: "string \<rightharpoonup> string refHolder" where
  "testReplyHolders = [''abcd'' \<mapsto> Some ''content'']"

section \<open>Properties of the position translator\<close>

text \<open>
  C1, as stated: for every comment whose position is not \<^verbatim>\<open>null\<close> and is mapped by the
  \<^verbatim>\<open>diffToFilePosition\<close> table of its file, the translator returns a value: the mapped
  one, or the second-stage one when the file has a \<^verbatim>\<open>fileTranslations\<close> table and the
  pull request is checked out.  With position 10 mapped to line 10, local edits known for
  line 11 only and the pull request checked out, \<^verbatim>\<open>fileTranslations.get(10)\<close> is
  \<^verbatim>\<open>undefined\<close> and the translator throws instead of returning.
\<close>

theorem getTranslatedPosition_mapped_counterexample:
  "comment_position comment0 = Some 10
   \<and> diffToFilePosition staleTable 10 = Some 10
   \<and> getTranslatedPosition (TMap [''dir/file0'' \<mapsto> staleTable]) True comment0 = Inl TypeError"
  by (simp add: comment0_def staleTable_def getTranslatedPosition_def mapGet_def parseInt_def
        getNewPosition_def Let_def)

text \<open>
  C1, amended: for every comment whose position is not \<^verbatim>\<open>null\<close> and is mapped by the
  \<^verbatim>\<open>diffToFilePosition\<close> table of its file, the translator returns the mapped value when
  the file has no \<^verbatim>\<open>fileTranslations\<close> table or the pull request is not checked out; when
  the file has a \<^verbatim>\<open>fileTranslations\<close> table, the pull request is checked out and that
  table maps the adjusted value, it returns the new position the table gives for it.
\<close>

theorem getTranslatedPosition_mapped:
  assumes "m (comment_path rootComment) = Some forFile"
      and "comment_position rootComment = Some position"
      and "diffToFilePosition forFile position = Some adjusted"
  shows "(fileTranslations forFile = None \<or> \<not> checkedOut \<longrightarrow>
            getTranslatedPosition (TMap m) checkedOut rootComment
              = Inr \<lparr>lineNumber = JNum adjusted, positionText = JNum adjusted\<rparr>)
       \<and> (\<forall>ft entry. fileTranslations forFile = Some ft \<and> checkedOut
                      \<and> ft adjusted = Some entry \<longrightarrow>
            getTranslatedPosition (TMap m) checkedOut rootComment
              = Inr \<lparr>lineNumber = JNum (newPosition entry),
                     positionText = JNum (newPosition entry)\<rparr>)"
  using assms
  by (auto simp: getTranslatedPosition_def mapGet_def parseInt_def getNewPosition_def Let_def
           split: option.splits bool.splits)

text \<open>
  The scenario of the test suite (path "dir/file0", position 10, table \<open>10 \<mapsto> 10\<close>, no
  local edits) gives line 10; the edited table gives line 10 when the pull request is not
  checked out and line 12 when it is.
\<close>

theorem getTranslatedPosition_mapped_witness:
  "getTranslatedPosition testTranslations True comment0
     = Inr \<lparr>lineNumber = JNum 10, positionText = JNum 10\<rparr>
   \<and> getTranslatedPosition (TMap [''dir/file0'' \<mapsto> editedTable]) False comment0
     = Inr \<lparr>lineNumber = JNum 10, positionText = JNum 10\<rparr>
   \<and> getTranslatedPosition (TMap [''dir/file0'' \<mapsto> editedTable]) True comment0
     = Inr \<lparr>lineNumber = JNum 12, positionText = JNum 12\<rparr>"
  using getTranslatedPosition_mapped
          [of "[''dir/file0'' \<mapsto> selfTable 10, ''file1'' \<mapsto> selfTable 20, ''first.txt'' \<mapsto> selfTable 1]"
              comment0 "selfTable 10" 10 10 True]
        getTranslatedPosition_mapped
          [of "[''dir/file0'' \<mapsto> editedTable]" comment0 editedTable 10 10 False]
        getTranslatedPosition_mapped
          [of "[''dir/file0'' \<mapsto> editedTable]" comment0 editedTable 10 10 True]
  by (simp add: testTranslations_def comment0_def selfTable_def editedTable_def)

text \<open>
  C2, as stated: a comment whose position is \<^verbatim>\<open>null\<close> always translates to line
  \<^verbatim>\<open>null\<close> with the text "outdated".  This fails when the \<^verbatim>\<open>commentTranslations\<close>
  prop is itself \<^verbatim>\<open>null\<close> (the default of the test suite): that check comes first and
  gives the empty text.
\<close>

theorem getTranslatedPosition_null_position_counterexample:
  "getTranslatedPosition TNull True (comment0\<lparr>comment_position := None\<rparr>)
     = Inr \<lparr>lineNumber = JNull, positionText = JStr ''''\<rparr>
   \<and> getTranslatedPosition TNull True (comment0\<lparr>comment_position := None\<rparr>)
     \<noteq> Inr \<lparr>lineNumber = JNull, positionText = JStr ''outdated''\<rparr>"
  by (simp add: getTranslatedPosition_def comment0_def)

text \<open>
  C2, amended: for every comment whose position is \<^verbatim>\<open>null\<close>, and whenever the
  \<^verbatim>\<open>commentTranslations\<close> prop is not \<^verbatim>\<open>null\<close>, the translator returns line
  \<^verbatim>\<open>null\<close> and the text "outdated", whatever the translation tables hold and whether
  or not the pull request is checked out.
\<close>

theorem getTranslatedPosition_null_position:
  assumes "comment_position rootComment = None" and "translations \<noteq> TNull"
  shows "getTranslatedPosition translations checkedOut rootComment
           = Inr \<lparr>lineNumber = JNull, positionText = JStr ''outdated''\<rparr>"
  using assms by (cases "translations") (simp_all add: getTranslatedPosition_def)

theorem getTranslatedPosition_null_position_witness:
  "getTranslatedPosition (TMap (\<lambda>p. None)) True (comment0\<lparr>comment_position := None\<rparr>)
     = Inr \<lparr>lineNumber = JNull, positionText = JStr ''outdated''\<rparr>
   \<and> getTranslatedPosition TUndefined False (comment0\<lparr>comment_position := None\<rparr>)
     = Inr \<lparr>lineNumber = JNull, positionText = JStr ''outdated''\<rparr>"
  using getTranslatedPosition_null_position
          [of "comment0\<lparr>comment_position := None\<rparr>" "TMap (\<lambda>p. None)" True]
        getTranslatedPosition_null_position
          [of "comment0\<lparr>comment_position := None\<rparr>" TUndefined False]
  by (simp add: comment0_def)

text \<open>
  C9, as stated: with tables available and a position that is not \<^verbatim>\<open>null\<close>, the text
  component of the translator's result is the line number as a string.  In the test
  suite's scenario the component is the number 10 itself, not the string "10": the
  translator assigns \<^verbatim>\<open>positionText = lineNumber\<close> and converts nothing.
\<close>

theorem getTranslatedPosition_positionText_counterexample:
  "getTranslatedPosition testTranslations True comment0
     = Inr \<lparr>lineNumber = JNum 10, positionText = JNum 10\<rparr>
   \<and> getTranslatedPosition testTranslations True comment0
     \<noteq> Inr \<lparr>lineNumber = JNum 10, positionText = JStr ''10''\<rparr>"
  by (simp add: getTranslatedPosition_def testTranslations_def comment0_def selfTable_def
        mapGet_def parseInt_def Let_def)

lemma translated_cases:
  assumes "getTranslatedPosition (TMap m) checkedOut rootComment = Inr translated"
      and "comment_position rootComment = Some position"
  shows "\<exists>forFile. m (comment_path rootComment) = Some forFile
           \<and> positionText translated = lineNumber translated
           \<and> (case diffToFilePosition forFile position of
                 None \<Rightarrow> lineNumber translated = JUndefined
               | Some adjusted \<Rightarrow> (\<exists>n. lineNumber translated = JNum n))"
  using assms
  by (auto simp: getTranslatedPosition_def mapGet_def parseInt_def getNewPosition_def Let_def
           split: option.splits bool.splits sum.splits jsval.splits)

lemma renderReviewCommentThread_line:
  assumes "renderReviewCommentThread P \<lparr>thread = t, comments = rootComment # rest\<rparr>
             = Inr (Some el)"
  shows "\<exists>translated.
           getTranslatedPosition (commentTranslations P) (isCheckedOutPullRequest P) rootComment
             = Inr translated
         \<and> element_dataLine el = lineNumber translated
         \<and> element_lineNr el = childText (positionText translated)"
  using assms
  by (auto simp: renderReviewCommentThread_def arrayIndex_def split: sum.splits option.splits)

text \<open>
  C9, amended: with tables available and a position that is not \<^verbatim>\<open>null\<close>, the text
  component of every result of the translator is the very value of its line number
  component and never a string: it is a number, or \<^verbatim>\<open>undefined\<close> exactly when
  \<^verbatim>\<open>diffToFilePosition\<close> does not map the position.  The line number span of the thread
  rendered for the comment then shows the decimal numeral of that number, and nothing
  for \<^verbatim>\<open>undefined\<close>; the data attribute of the Jump To File button holds the same
  line number.
\<close>

theorem getTranslatedPosition_positionText:
  assumes "getTranslatedPosition (TMap m) checkedOut rootComment = Inr translated"
      and "comment_position rootComment = Some position"
  shows "positionText translated = lineNumber translated
       \<and> ((\<exists>n. positionText translated = JNum n) \<or> positionText translated = JUndefined)
       \<and> (\<forall>s. positionText translated \<noteq> JStr s)
       \<and> (\<forall>forFile. m (comment_path rootComment) = Some forFile \<longrightarrow>
             (positionText translated = JUndefined
                \<longleftrightarrow> diffToFilePosition forFile position = None))
       \<and> (\<forall>P t rest el.
             commentTranslations P = TMap m \<and> isCheckedOutPullRequest P = checkedOut
             \<and> renderReviewCommentThread P \<lparr>thread = t, comments = rootComment # rest\<rparr>
                 = Inr (Some el) \<longrightarrow>
             element_dataLine el = lineNumber translated
           \<and> (\<forall>n. positionText translated = JNum n \<longrightarrow> element_lineNr el = showInt n)
           \<and> (positionText translated = JUndefined \<longrightarrow> element_lineNr el = ''''))"
proof -
  from translated_cases [OF assms] obtain forFile where
    present: "m (comment_path rootComment) = Some forFile"
    and same: "positionText translated = lineNumber translated"
    and kind: "case diffToFilePosition forFile position of
                 None \<Rightarrow> lineNumber translated = JUndefined
               | Some adjusted \<Rightarrow> (\<exists>n. lineNumber translated = JNum n)"
    by blast
  have number: "(\<exists>n. positionText translated = JNum n) \<or> positionText translated = JUndefined"
    using same kind by (auto split: option.splits)
  then have nostring: "\<forall>s. positionText translated \<noteq> JStr s"
    by auto
  have unmapped: "\<forall>forFile'. m (comment_path rootComment) = Some forFile' \<longrightarrow>
             (positionText translated = JUndefined
                \<longleftrightarrow> diffToFilePosition forFile' position = None)"
    using present same kind by (auto split: option.splits)
  have span: "\<forall>P t rest el.
             commentTranslations P = TMap m \<and> isCheckedOutPullRequest P = checkedOut
             \<and> renderReviewCommentThread P \<lparr>thread = t, comments = rootComment # rest\<rparr>
                 = Inr (Some el) \<longrightarrow>
             element_dataLine el = lineNumber translated
           \<and> (\<forall>n. positionText translated = JNum n \<longrightarrow> element_lineNr el = showInt n)
           \<and> (positionText translated = JUndefined \<longrightarrow> element_lineNr el = '''')"
  proof (intro allI impI)
    fix P t rest el
    assume a: "commentTranslations P = TMap m \<and> isCheckedOutPullRequest P = checkedOut
             \<and> renderReviewCommentThread P \<lparr>thread = t, comments = rootComment # rest\<rparr>
                 = Inr (Some el)"
    then have "renderReviewCommentThread P \<lparr>thread = t, comments = rootComment # rest\<rparr>
                 = Inr (Some el)"
      by simp
    from renderReviewCommentThread_line [OF this] a assms(1)
    have "element_dataLine el = lineNumber translated"
      and "element_lineNr el = childText (positionText translated)"
      by auto
    then show "element_dataLine el = lineNumber translated
           \<and> (\<forall>n. positionText translated = JNum n \<longrightarrow> element_lineNr el = showInt n)
           \<and> (positionText translated = JUndefined \<longrightarrow> element_lineNr el = '''')"
      by (simp add: childText_def)
  qed
  show ?thesis
    by (rule conjI [OF same conjI [OF number conjI [OF nostring conjI [OF unmapped span]]]])
qed

text \<open>
  The scenario of the test suite, whose line number span reads "10", and the same thread
  over a table that does not map position 10, whose span is empty.
\<close>

theorem getTranslatedPosition_positionText_witness:
  "(\<exists>translated el. getTranslatedPosition testTranslations True comment0 = Inr translated
      \<and> lineNumber translated = JNum 10 \<and> positionText translated = JNum 10
      \<and> renderReviewCommentThread threadsApp thread0 = Inr (Some el)
      \<and> element_dataLine el = JNum 10 \<and> element_lineNr el = ''10'')
   \<and> (\<exists>translated el.
        getTranslatedPosition (TMap [''dir/file0'' \<mapsto> emptyTable]) False comment0
          = Inr translated
      \<and> lineNumber translated = JUndefined \<and> positionText translated = JUndefined
      \<and> renderReviewCommentThread unmappedApp thread0 = Inr (Some el)
      \<and> element_dataLine el = JUndefined \<and> element_lineNr el = '''')"
proof -
  have position: "comment_position comment0 = Some 10"
    by (simp add: comment0_def)
  have shape: "thread0 = \<lparr>thread = thread thread0, comments = comment0 # [comment1]\<rparr>"
    by (simp add: thread0_def)
  have result: "getTranslatedPosition testTranslations True comment0
                  = Inr \<lparr>lineNumber = JNum 10, positionText = JNum 10\<rparr>"
    by (simp add: getTranslatedPosition_def testTranslations_def comment0_def selfTable_def
          mapGet_def parseInt_def Let_def)
  have ten: "showInt 10 = ''10''"
    by (simp add: showInt_def showNat.simps digit_def)
  have app: "commentTranslations threadsApp = testTranslations
             \<and> isCheckedOutPullRequest threadsApp = True"
    by (simp add: threadsApp_def buildApp_def)
  obtain el where el: "renderReviewCommentThread threadsApp thread0 = Inr (Some el)"
    by (simp add: threadsApp_def buildApp_def thread0_def comment0_def comment1_def
          renderReviewCommentThread_def arrayIndex_def getTranslatedPosition_def
          testTranslations_def selfTable_def mapGet_def parseInt_def Let_def
          renderThread_def renderComment_def)
  from el shape have el': "renderReviewCommentThread threadsApp
        \<lparr>thread = thread thread0, comments = comment0 # [comment1]\<rparr> = Inr (Some el)"
    by simp
  note facts = getTranslatedPosition_positionText
         [OF result [unfolded testTranslations_def] position]
  from facts app el' have "element_dataLine el = JNum 10"
    and "\<forall>n. JNum 10 = JNum n \<longrightarrow> element_lineNr el = showInt n"
    unfolding testTranslations_def by auto
  with ten have "element_dataLine el = JNum 10" and "element_lineNr el = ''10''"
    by simp_all
  with result el have mapped:
    "\<exists>translated el. getTranslatedPosition testTranslations True comment0 = Inr translated
      \<and> lineNumber translated = JNum 10 \<and> positionText translated = JNum 10
      \<and> renderReviewCommentThread threadsApp thread0 = Inr (Some el)
      \<and> element_dataLine el = JNum 10 \<and> element_lineNr el = ''10''"
    by simp
  have result': "getTranslatedPosition (TMap [''dir/file0'' \<mapsto> emptyTable]) False comment0
                  = Inr \<lparr>lineNumber = JUndefined, positionText = JUndefined\<rparr>"
    by (simp add: getTranslatedPosition_def comment0_def emptyTable_def
          mapGet_def parseInt_def Let_def)
  have app': "commentTranslations unmappedApp = TMap [''dir/file0'' \<mapsto> emptyTable]
             \<and> isCheckedOutPullRequest unmappedApp = False"
    by (simp add: unmappedApp_def threadsApp_def buildApp_def)
  obtain ul where ul: "renderReviewCommentThread unmappedApp thread0 = Inr (Some ul)"
    by (simp add: unmappedApp_def threadsApp_def buildApp_def thread0_def comment0_def
          comment1_def renderReviewCommentThread_def arrayIndex_def getTranslatedPosition_def
          emptyTable_def mapGet_def parseInt_def Let_def renderThread_def renderComment_def)
  from ul shape have ul': "renderReviewCommentThread unmappedApp
        \<lparr>thread = thread thread0, comments = comment0 # [comment1]\<rparr> = Inr (Some ul)"
    by simp
  note facts' = getTranslatedPosition_positionText [OF result' position]
  from facts' app' ul' have "element_dataLine ul = JUndefined" and "element_lineNr ul = ''''"
    by auto
  with result' ul have unmapped:
    "\<exists>translated el.
        getTranslatedPosition (TMap [''dir/file0'' \<mapsto> emptyTable]) False comment0
          = Inr translated
      \<and> lineNumber translated = JUndefined \<and> positionText translated = JUndefined
      \<and> renderReviewCommentThread unmappedApp thread0 = Inr (Some el)
      \<and> element_dataLine el = JUndefined \<and> element_lineNr el = ''''"
    by simp
  from mapped unmapped show ?thesis
    by (rule conjI)
qed

text \<open>
  C10: for a comment whose position is not \<^verbatim>\<open>null\<close>, the translator throws when the
  translation map has no entry for the comment's path, and it throws when the position
  is not mapped by \<^verbatim>\<open>diffToFilePosition\<close> while the file has a \<^verbatim>\<open>fileTranslations\<close>
  table and the pull request is checked out; in neither case does it answer "outdated".
  When the path is present, the position is mapped and, where the second table is
  consulted, it maps the adjusted position, the translator returns a result.
\<close>

theorem getTranslatedPosition_throws:
  assumes "comment_position rootComment = Some position"
  shows "(m (comment_path rootComment) = None \<longrightarrow>
            getTranslatedPosition (TMap m) checkedOut rootComment = Inl TypeError)
       \<and> (\<forall>forFile ft. m (comment_path rootComment) = Some forFile
              \<and> diffToFilePosition forFile position = None
              \<and> fileTranslations forFile = Some ft \<longrightarrow>
            getTranslatedPosition (TMap m) True rootComment = Inl TypeError)
       \<and> (\<forall>forFile adjusted. m (comment_path rootComment) = Some forFile
              \<and> diffToFilePosition forFile position = Some adjusted
              \<and> (\<forall>ft. fileTranslations forFile = Some ft \<and> checkedOut \<longrightarrow> ft adjusted \<noteq> None) \<longrightarrow>
            (\<exists>translated. getTranslatedPosition (TMap m) checkedOut rootComment = Inr translated))"
  using assms
  by (auto simp: getTranslatedPosition_def mapGet_def parseInt_def getNewPosition_def Let_def
           split: option.splits bool.splits)

theorem getTranslatedPosition_throws_witness:
  "getTranslatedPosition (TMap (\<lambda>p. None)) True comment0 = Inl TypeError
   \<and> getTranslatedPosition (TMap [''dir/file0'' \<mapsto> otherTable]) True comment0 = Inl TypeError
   \<and> (\<exists>translated. getTranslatedPosition (TMap [''dir/file0'' \<mapsto> editedTable]) True comment0
                       = Inr translated)"
proof -
  have position: "comment_position comment0 = Some 10"
    by (simp add: comment0_def)
  note facts = getTranslatedPosition_throws [OF position]
  have "getTranslatedPosition (TMap (\<lambda>p. None)) True comment0 = Inl TypeError"
    using facts [of "\<lambda>p. None" True] by simp
  moreover have "getTranslatedPosition (TMap [''dir/file0'' \<mapsto> otherTable]) True comment0 = Inl TypeError"
    using facts [of "[''dir/file0'' \<mapsto> otherTable]" True]
    by (simp add: comment0_def otherTable_def)
  moreover have "\<exists>translated. getTranslatedPosition (TMap [''dir/file0'' \<mapsto> editedTable]) True comment0
                       = Inr translated"
    using facts [of "[''dir/file0'' \<mapsto> editedTable]" True]
    by (simp add: comment0_def editedTable_def)
  ultimately show ?thesis by blast
qed

section \<open>Properties of the summary list\<close>

lemma shownChildren_set:
  "e \<in> set (shownChildren cs) \<longleftrightarrow> Some e \<in> set cs"
  by (induction cs rule: shownChildren.induct) auto

lemma shownChildren_renderReviewSummary:
  "map summary_reactable (shownChildren (map renderReviewSummary rs))
     = filter (\<lambda>r. review_state r \<noteq> PENDING
                   \<and> \<not> (review_state r = COMMENTED \<and> review_bodyHTML r = '''')) rs"
  by (induction rs) (auto simp: renderReviewSummary_def split: prod.splits)

lemma renderReviewSummary_Some:
  "renderReviewSummary r = Some e \<Longrightarrow>
     summary_reactable e = r \<and> review_state r \<noteq> PENDING
     \<and> \<not> (review_state r = COMMENTED \<and> review_bodyHTML r = '''')"
  by (auto simp: renderReviewSummary_def split: prod.splits if_splits)

text \<open>
  C3: for every sequence of review summaries, no summary on screen is of a review whose
  state is \<^verbatim>\<open>PENDING\<close>, none is of a review whose state is \<^verbatim>\<open>COMMENTED\<close> with an empty
  body, each one is the rendering of its review, and the reviews on screen are all the
  others, once each and in the order given.
\<close>

theorem renderReviewSummaries_filtered:
  "(\<forall>e \<in> set (renderedSummaries (renderReviewSummaries P)).
       review_state (summary_reactable e) \<noteq> PENDING
     \<and> \<not> (review_state (summary_reactable e) = COMMENTED
          \<and> review_bodyHTML (summary_reactable e) = '''')
     \<and> renderReviewSummary (summary_reactable e) = Some e)
   \<and> map summary_reactable (renderedSummaries (renderReviewSummaries P))
       = filter (\<lambda>r. review_state r \<noteq> PENDING
                     \<and> \<not> (review_state r = COMMENTED \<and> review_bodyHTML r = ''''))
           (summaries P)"
proof (cases "summaries P = []")
  case True
  then show ?thesis
    by (simp add: renderReviewSummaries_def renderEmptyState_def renderedSummaries_def)
next
  case False
  then have shown: "renderedSummaries (renderReviewSummaries P)
                      = shownChildren (map renderReviewSummary (summaries P))"
    by (simp add: renderReviewSummaries_def renderedSummaries_def)
  have "\<And>e. e \<in> set (shownChildren (map renderReviewSummary (summaries P))) \<Longrightarrow>
          review_state (summary_reactable e) \<noteq> PENDING
        \<and> \<not> (review_state (summary_reactable e) = COMMENTED
             \<and> review_bodyHTML (summary_reactable e) = '''')
        \<and> renderReviewSummary (summary_reactable e) = Some e"
  proof -
    fix e
    assume "e \<in> set (shownChildren (map renderReviewSummary (summaries P)))"
    then obtain r where "renderReviewSummary r = Some e"
      by (auto simp: shownChildren_set)
    then show "review_state (summary_reactable e) \<noteq> PENDING
        \<and> \<not> (review_state (summary_reactable e) = COMMENTED
             \<and> review_bodyHTML (summary_reactable e) = '''')
        \<and> renderReviewSummary (summary_reactable e) = Some e"
      using renderReviewSummary_Some [of r e] by simp
  qed
  then show ?thesis
    unfolding shown using shownChildren_renderReviewSummary [of "summaries P"] by blast
qed

theorem renderReviewSummaries_filtered_witness:
  "map summary_reactable (renderedSummaries (renderReviewSummaries
       (buildApp\<lparr>summaries := [summaryPending, summary0, summaryEmptyComment, summaryComment]\<rparr>)))
     = [summary0, summaryComment]"
  using renderReviewSummaries_filtered
          [of "buildApp\<lparr>summaries := [summaryPending, summary0, summaryEmptyComment, summaryComment]\<rparr>"]
  by (simp add: buildApp_def summaryPending_def summary0_def summaryEmptyComment_def
        summaryComment_def)

section \<open>Properties of the comment threads\<close>

lemma mapThrowing_Inr:
  "mapThrowing f xs = Inr ys \<Longrightarrow>
     length ys = length xs \<and> (\<forall>i < length xs. f (xs ! i) = Inr (ys ! i))"
proof (induction xs arbitrary: ys)
  case Nil
  then show ?case by simp
next
  case (Cons x xs)
  then obtain y ys' where y: "f x = Inr y" and ys': "mapThrowing f xs = Inr ys'"
    and ys: "ys = y # ys'"
    by (auto split: sum.splits)
  from Cons.IH [OF ys'] y ys show ?case
    by (auto simp: nth_Cons split: nat.splits)
qed

lemma mapThrowing_total:
  "(\<forall>x \<in> set xs. \<exists>y. f x = Inr y) \<Longrightarrow> \<exists>ys. mapThrowing f xs = Inr ys"
  by (induction xs) (auto split: sum.splits)

lemma mapThrowing_member:
  assumes "mapThrowing f xs = Inr ys" and "y \<in> set ys"
  shows "\<exists>x \<in> set xs. f x = Inr y"
proof -
  from assms(2) obtain i where i: "i < length ys" "ys ! i = y"
    by (auto simp: in_set_conv_nth)
  with mapThrowing_Inr [OF assms(1)] have "f (xs ! i) = Inr y" "i < length xs"
    by auto
  then show ?thesis by (metis nth_mem)
qed

text \<open>
  C4: for every sequence of pairs, the comments section, which is rendered for a
  sequence that is not empty and whose threads render, shows as resolved count the number
  of pairs whose thread is resolved and as total the length of the sequence, with
  \<open>0 \<le> resolved \<le> total\<close>; the progress bar has the same value and maximum, and the
  text of the count reads "Resolved r of t", so "Resolved 1 of 3" for three pairs of
  which one is resolved.  Nothing is rendered for the empty sequence.
\<close>

theorem renderReviewCommentThreads_count:
  "(commentThreads P = [] \<longrightarrow> renderReviewCommentThreads P = Inr None)
   \<and> (commentThreads P \<noteq> []
        \<and> (\<forall>pair \<in> set (commentThreads P). \<exists>el. renderReviewCommentThread P pair = Inr el) \<longrightarrow>
      (\<exists>s. renderReviewCommentThreads P = Inr (Some s)))
   \<and> (\<forall>s. renderReviewCommentThreads P = Inr (Some s) \<longrightarrow>
        count_resolved s
          = length (filter (\<lambda>pair. thread_isResolved (thread pair)) (commentThreads P))
      \<and> count_total s = length (commentThreads P)
      \<and> 0 \<le> count_resolved s \<and> count_resolved s \<le> count_total s
      \<and> progress_value s = count_resolved s \<and> progress_max s = count_total s
      \<and> count_text s
          = ''Resolved '' @ showNat (count_resolved s) @ '' of '' @ showNat (count_total s)
      \<and> (count_total s = 3 \<and> count_resolved s = 1 \<longrightarrow> count_text s = ''Resolved 1 of 3''))"
proof (intro conjI allI impI)
  assume "commentThreads P = []"
  then show "renderReviewCommentThreads P = Inr None"
    by (simp add: renderReviewCommentThreads_def)
next
  assume a: "commentThreads P \<noteq> []
        \<and> (\<forall>pair \<in> set (commentThreads P). \<exists>el. renderReviewCommentThread P pair = Inr el)"
  then obtain children
    where "mapThrowing (renderReviewCommentThread P) (commentThreads P) = Inr children"
    using mapThrowing_total [of "commentThreads P" "renderReviewCommentThread P"] by blast
  with a show "\<exists>s. renderReviewCommentThreads P = Inr (Some s)"
    by (simp add: renderReviewCommentThreads_def Let_def)
next
  fix s
  assume s: "renderReviewCommentThreads P = Inr (Some s)"
  then have r: "count_resolved s
                  = length (filter (\<lambda>pair. thread_isResolved (thread pair)) (commentThreads P))"
    and t: "count_total s = length (commentThreads P)"
    and x: "count_text s
              = ''Resolved '' @ showNat (count_resolved s) @ '' of '' @ showNat (count_total s)"
    and v: "progress_value s = count_resolved s" and m: "progress_max s = count_total s"
    by (auto simp: renderReviewCommentThreads_def Let_def split: if_splits sum.splits)
  show "count_resolved s
          = length (filter (\<lambda>pair. thread_isResolved (thread pair)) (commentThreads P))"
    by (rule r)
  show "count_total s = length (commentThreads P)" by (rule t)
  show "0 \<le> count_resolved s" by simp
  show "count_resolved s \<le> count_total s" by (simp add: r t)
  show "progress_value s = count_resolved s" by (rule v)
  show "progress_max s = count_total s" by (rule m)
  show "count_text s
          = ''Resolved '' @ showNat (count_resolved s) @ '' of '' @ showNat (count_total s)"
    by (rule x)
  assume "count_total s = 3 \<and> count_resolved s = 1"
  then show "count_text s = ''Resolved 1 of 3''"
    by (simp add: x showNat.simps digit_def)
qed

lemma threadsApp_renders:
  "\<forall>pair \<in> set (commentThreads threadsApp).
     \<exists>el. renderReviewCommentThread threadsApp pair = Inr el"
  by (simp add: threadsApp_def buildApp_def thread0_def thread1_def thread2_def
        comment0_def comment1_def comment2_def comment3_def comment4_def
        renderReviewCommentThread_def arrayIndex_def getTranslatedPosition_def
        testTranslations_def selfTable_def mapGet_def parseInt_def Let_def
        renderThread_def renderComment_def)

text \<open>The three threads of the test suite, one of them resolved.\<close>

theorem renderReviewCommentThreads_count_witness:
  "\<exists>s. renderReviewCommentThreads threadsApp = Inr (Some s)
       \<and> count_resolved s = 1 \<and> count_total s = 3 \<and> count_text s = ''Resolved 1 of 3''"
proof -
  have ne: "commentThreads threadsApp \<noteq> []"
    by (simp add: threadsApp_def)
  from renderReviewCommentThreads_count [of threadsApp] ne threadsApp_renders
  obtain s where s: "renderReviewCommentThreads threadsApp = Inr (Some s)"
    by blast
  with renderReviewCommentThreads_count [of threadsApp]
  have "count_resolved s
          = length (filter (\<lambda>pair. thread_isResolved (thread pair)) (commentThreads threadsApp))"
    and "count_total s = length (commentThreads threadsApp)"
    and c: "count_total s = 3 \<and> count_resolved s = 1 \<longrightarrow> count_text s = ''Resolved 1 of 3''"
    by blast+
  then have "count_resolved s = 1" and "count_total s = 3"
    by (simp_all add: threadsApp_def thread0_def thread1_def thread2_def)
  with c s show ?thesis by blast
qed

lemma renderThread_posting:
  "renderThread P t cs = Inr body \<Longrightarrow>
     editor_readOnly body = (postingToThreadID P \<noteq> JNull)
   \<and> replyButton_disabled body = (postingToThreadID P \<noteq> JNull)
   \<and> reply_disabledClass body = (postingToThreadID P \<noteq> JNull)"
  by (auto simp: renderThread_def Let_def split: sum.splits if_splits option.splits)

lemma renderReviewCommentThread_body:
  "renderReviewCommentThread P pair = Inr (Some el) \<Longrightarrow>
     renderThread P (thread pair) (comments pair) = Inr (element_thread el)"
  by (auto simp: renderReviewCommentThread_def split: option.splits sum.splits)

text \<open>
  C7, as stated, says that while the posting guard is set reply submission is disabled
  for every thread, and that comments in the pending state are flagged with a pending
  badge.  A minimized comment is rendered as the placeholder "This comment was hidden"
  before its state is looked at, so a minimized pending comment carries no badge.  And
  with the guard set to the first thread, the command \<^verbatim>\<open>github:submit-comment\<close> on that
  thread's reply box still calls \<^verbatim>\<open>addSingleComment\<close> with the text of the editor.
\<close>

theorem renderComment_pending_counterexample:
  "comment_state (comment3\<lparr>comment_isMinimized := True\<rparr>) = PENDING
   \<and> renderComment (comment3\<lparr>comment_isMinimized := True\<rparr>) = Inr (HiddenComment ''3'')
   \<and> postingToThreadID postingApp = JStr ''abcd''
   \<and> callsMade (submitCurrentComment postingApp testReplyHolders [] (Some ''abcd''))
       = [\<lparr>arg_body = ''content'', arg_threadID = ''abcd'', arg_commentID = ''1'',
           arg_path = ''file0'', arg_position = Some 10\<rparr>]"
  by (simp add: comment3_def renderComment_def postingApp_def threadsApp_def buildApp_def
        callsMade_def submitCurrentComment_def testReplyHolders_def thread0_def thread1_def
        thread2_def comment0_def comment1_def submitReply_def arrayIndex_def Let_def
        getOr_def holder_map_def getText_def)

text \<open>
  C7, amended: whenever the posting guard \<^verbatim>\<open>postingToThreadID\<close> holds a thread id, every
  thread that is rendered, by itself or as a child of the comments section, has a
  read-only reply editor and a disabled Comment button (and the disabled class on the
  reply box); every rendered comment in the pending state that is not minimized carries
  the pending class and the pending badge; and a minimized comment renders as the
  hidden-comment placeholder only.
\<close>

theorem posting_disables_replies:
  assumes "postingToThreadID P = JStr threadID"
  shows "(\<forall>t cs body. renderThread P t cs = Inr body \<longrightarrow>
            editor_readOnly body \<and> replyButton_disabled body \<and> reply_disabledClass body)
       \<and> (\<forall>s. renderReviewCommentThreads P = Inr (Some s) \<longrightarrow>
            (\<forall>el \<in> set (shownChildren (section_threads s)).
               editor_readOnly (element_thread el) \<and> replyButton_disabled (element_thread el)))
       \<and> (\<forall>c el. comment_state c = PENDING \<and> \<not> comment_isMinimized c
                   \<and> renderComment c = Inr el \<longrightarrow>
            (\<exists>shown. el = ShownComment shown
                    \<and> shown_pendingBadge shown \<and> shown_pendingClass shown))
       \<and> (\<forall>c. comment_isMinimized c \<longrightarrow> renderComment c = Inr (HiddenComment (comment_id c)))"
proof -
  have posting: "postingToThreadID P \<noteq> JNull"
    using assms by simp
  have one: "\<forall>t cs body. renderThread P t cs = Inr body \<longrightarrow>
            editor_readOnly body \<and> replyButton_disabled body \<and> reply_disabledClass body"
    using renderThread_posting posting by blast
  have every: "\<forall>s. renderReviewCommentThreads P = Inr (Some s) \<longrightarrow>
            (\<forall>el \<in> set (shownChildren (section_threads s)).
               editor_readOnly (element_thread el) \<and> replyButton_disabled (element_thread el))"
  proof (intro allI impI ballI)
    fix s el
    assume s: "renderReviewCommentThreads P = Inr (Some s)"
      and el: "el \<in> set (shownChildren (section_threads s))"
    from s have children:
      "mapThrowing (renderReviewCommentThread P) (commentThreads P) = Inr (section_threads s)"
      by (auto simp: renderReviewCommentThreads_def Let_def split: if_splits sum.splits)
    from el have "Some el \<in> set (section_threads s)"
      by (simp add: shownChildren_set)
    from mapThrowing_member [OF children this]
    obtain pair where "renderReviewCommentThread P pair = Inr (Some el)"
      by blast
    from renderThread_posting [OF renderReviewCommentThread_body [OF this]] posting
    show "editor_readOnly (element_thread el) \<and> replyButton_disabled (element_thread el)"
      by simp
  qed
  have badge: "\<forall>c el. comment_state c = PENDING \<and> \<not> comment_isMinimized c
                   \<and> renderComment c = Inr el \<longrightarrow>
            (\<exists>shown. el = ShownComment shown
                    \<and> shown_pendingBadge shown \<and> shown_pendingClass shown)"
    by (auto simp: renderComment_def split: option.splits)
  have hidden: "\<forall>c. comment_isMinimized c \<longrightarrow> renderComment c = Inr (HiddenComment (comment_id c))"
    by (simp add: renderComment_def)
  show ?thesis
    by (rule conjI [OF one conjI [OF every conjI [OF badge hidden]]])
qed

text \<open>
  The threads of the test suite while a comment is being posted to the first: the second
  thread, the whole section, the pending comment and the minimized comment.
\<close>

theorem posting_disables_replies_witness:
  "(\<exists>body. renderThread postingApp (thread thread1) (comments thread1) = Inr body
        \<and> editor_readOnly body \<and> replyButton_disabled body \<and> reply_disabledClass body)
   \<and> (\<exists>s. renderReviewCommentThreads postingApp = Inr (Some s)
        \<and> length (shownChildren (section_threads s)) = 3
        \<and> list_all (\<lambda>el. editor_readOnly (element_thread el)
                          \<and> replyButton_disabled (element_thread el))
             (shownChildren (section_threads s)))
   \<and> (\<exists>shown. renderComment comment3 = Inr (ShownComment shown)
        \<and> shown_pendingBadge shown \<and> shown_pendingClass shown)
   \<and> renderComment comment1 = Inr (HiddenComment ''1'')"
proof -
  have posting: "postingToThreadID postingApp = JStr ''abcd''"
    by (simp add: postingApp_def)
  note facts = posting_disables_replies [OF posting]
  have "\<exists>body. renderThread postingApp (thread thread1) (comments thread1) = Inr body"
    by (simp add: renderThread_def renderComment_def thread1_def comment2_def comment3_def
          Let_def)
  with facts have first: "\<exists>body. renderThread postingApp (thread thread1) (comments thread1) = Inr body
        \<and> editor_readOnly body \<and> replyButton_disabled body \<and> reply_disabledClass body"
    by blast
  have "\<exists>s. renderReviewCommentThreads postingApp = Inr (Some s)
           \<and> length (shownChildren (section_threads s)) = 3"
    by (simp add: postingApp_def threadsApp_def buildApp_def thread0_def thread1_def thread2_def
        comment0_def comment1_def comment2_def comment3_def comment4_def
        renderReviewCommentThreads_def
        renderReviewCommentThread_def arrayIndex_def getTranslatedPosition_def
        testTranslations_def selfTable_def mapGet_def parseInt_def Let_def
        renderThread_def renderComment_def)
  then obtain s where s: "renderReviewCommentThreads postingApp = Inr (Some s)"
    and three: "length (shownChildren (section_threads s)) = 3"
    by blast
  from facts s have "\<forall>el \<in> set (shownChildren (section_threads s)).
               editor_readOnly (element_thread el) \<and> replyButton_disabled (element_thread el)"
    by blast
  then have "list_all (\<lambda>el. editor_readOnly (element_thread el)
                          \<and> replyButton_disabled (element_thread el))
             (shownChildren (section_threads s))"
    by (simp add: list_all_iff)
  with s three have second: "\<exists>s. renderReviewCommentThreads postingApp = Inr (Some s)
        \<and> length (shownChildren (section_threads s)) = 3
        \<and> list_all (\<lambda>el. editor_readOnly (element_thread el)
                          \<and> replyButton_disabled (element_thread el))
             (shownChildren (section_threads s))"
    by blast
  have "comment_state comment3 = PENDING \<and> \<not> comment_isMinimized comment3"
    and "\<exists>el. renderComment comment3 = Inr el"
    by (simp_all add: comment3_def renderComment_def)
  with facts have third: "\<exists>shown. renderComment comment3 = Inr (ShownComment shown)
        \<and> shown_pendingBadge shown \<and> shown_pendingClass shown"
    by blast
  have "comment_isMinimized comment1" and "comment_id comment1 = ''1''"
    by (simp_all add: comment1_def)
  with facts have fourth: "renderComment comment1 = Inr (HiddenComment ''1'')"
    by metis
  from first second third fourth show ?thesis
    by blast
qed

section \<open>Properties of replying\<close>




text \<open>
  C6: a reply submission calls \<^verbatim>\<open>addSingleComment\<close> once, with the text the reply editor
  holds at that moment; the failure callback it hands over puts that text back into the
  reply editor, whatever the editor holds when the failure arrives, and calls
  \<^verbatim>\<open>addSingleComment\<close> no further time.
\<close>

theorem didFailComment_restores:
  "\<exists>w1 cb. submitReply w t (Some l) = Inr (w1, cb)
     \<and> length (posted w1) = Suc (length (posted w))
     \<and> (\<forall>draft. replyHolder w = Some draft \<longrightarrow>
            arg_body (last (posted w1)) = draft
          \<and> (\<forall>w2 text. replyHolder w2 = Some text \<longrightarrow>
                replyHolder (didFailComment cb w2) = Some draft))
     \<and> (\<forall>w2. posted (didFailComment cb w2) = posted w2)"
  by (auto simp: submitReply_def Let_def getOr_def holder_map_def getText_def setText_def)

text \<open>A reply "content" whose editor has been emptied by the time the failure arrives.\<close>

theorem didFailComment_restores_witness:
  "\<exists>w1 cb. submitReply contentWorld (thread thread0) (Some comment1) = Inr (w1, cb)
     \<and> arg_body (last (posted w1)) = ''content''
     \<and> replyHolder (didFailComment cb \<lparr>replyHolder = Some '''', posted = posted w1\<rparr>)
         = Some ''content''
     \<and> posted (didFailComment cb \<lparr>replyHolder = Some '''', posted = posted w1\<rparr>) = posted w1"
proof -
  have holder: "replyHolder contentWorld = Some ''content''"
    by (simp add: contentWorld_def)
  from didFailComment_restores [of contentWorld "thread thread0" comment1]
  obtain w1 cb where
    s: "submitReply contentWorld (thread thread0) (Some comment1) = Inr (w1, cb)"
    and d: "\<forall>draft. replyHolder contentWorld = Some draft \<longrightarrow>
            arg_body (last (posted w1)) = draft
          \<and> (\<forall>w2 text. replyHolder w2 = Some text \<longrightarrow>
                replyHolder (didFailComment cb w2) = Some draft)"
    and p: "\<forall>w2. posted (didFailComment cb w2) = posted w2"
    by blast
  from d holder have "arg_body (last (posted w1)) = ''content''"
    and "replyHolder (didFailComment cb \<lparr>replyHolder = Some '''', posted = posted w1\<rparr>)
           = Some ''content''"
    by simp_all
  with s p show ?thesis by simp
qed

section \<open>Properties of refreshing\<close>

lemma step_keeps:
  assumes "\<not> subs_disposed v" and "length (subs v) \<le> 1"
    and "isRefreshing v \<longleftrightarrow> subs v \<noteq> []"
    and "case e of ClickRefresh \<Rightarrow> True | RefetchCompleted sub \<Rightarrow> sub \<in> set (subs v)"
  shows "\<not> subs_disposed (step v e) \<and> length (subs (step v e)) \<le> 1
       \<and> (isRefreshing (step v e) \<longleftrightarrow> subs (step v e) \<noteq> [])
       \<and> refetchCalls (step v e) + length (subs v)
           = refetchCalls v + length (subs (step v e)) + (if e = ClickRefresh then 0 else 1)"
proof (cases e)
  case ClickRefresh
  with assms show ?thesis
    by (cases "subs v") (auto simp: refresh_def subs_add_def Let_def)
next
  case (RefetchCompleted sub)
  with assms have "subs v = [sub]"
    by (cases "subs v") auto
  with RefetchCompleted assms show ?thesis
    by (simp add: refetchCallback_def subs_remove_def)
qed

lemma run_keeps:
  assumes "completesInFlight v es"
    and "\<not> subs_disposed v" and "length (subs v) \<le> 1"
    and "isRefreshing v \<longleftrightarrow> subs v \<noteq> []"
  shows "\<not> subs_disposed (foldl step v es) \<and> length (subs (foldl step v es)) \<le> 1
       \<and> (isRefreshing (foldl step v es) \<longleftrightarrow> subs (foldl step v es) \<noteq> [])
       \<and> refetchCalls (foldl step v es) + length (subs v)
           = refetchCalls v + length (subs (foldl step v es))
             + length (filter (\<lambda>e. e \<noteq> ClickRefresh) es)"
  using assms
proof (induction es arbitrary: v)
  case Nil
  then show ?case by simp
next
  case (Cons e es)
  have ok: "case e of ClickRefresh \<Rightarrow> True | RefetchCompleted sub \<Rightarrow> sub \<in> set (subs v)"
    using Cons.prems(1) by (cases e) auto
  have rest: "completesInFlight (step v e) es"
    using Cons.prems(1) by (cases e) auto
  note one = step_keeps [OF Cons.prems(2) Cons.prems(3) Cons.prems(4) ok]
  from one have a: "\<not> subs_disposed (step v e)" and b: "length (subs (step v e)) \<le> 1"
    and c: "isRefreshing (step v e) \<longleftrightarrow> subs (step v e) \<noteq> []"
    by blast+
  from Cons.IH [OF rest a b c] one show ?case
    by (cases e) auto
qed

text \<open>
  C8: a click on the refresh button while \<^verbatim>\<open>isRefreshing\<close> is set changes nothing, and
  in particular does not call \<^verbatim>\<open>refetch\<close>; unmounting disposes every subscription the
  view holds and leaves it with none.  Over the life of a mounted view, from the
  constructor and through any clicks and completions of refetches in flight, at most
  one subscription is held; the flag is set exactly while one is held; the subscriptions
  held are as many as \<^verbatim>\<open>refetch\<close> was called less the completions; and unmounting then
  disposes what is held.
\<close>

theorem refresh_not_reentered:
  "(isRefreshing v \<longrightarrow> refresh v = v \<and> refetchCalls (refresh v) = refetchCalls v)
   \<and> (\<not> subs_disposed v \<longrightarrow>
        set (subs v) \<subseteq> set (disposedSubs (componentWillUnmount v))
      \<and> subs (componentWillUnmount v) = [])
   \<and> (\<forall>es. completesInFlight constructor es \<longrightarrow>
        length (subs (foldl step constructor es)) \<le> 1
      \<and> (isRefreshing (foldl step constructor es) \<longleftrightarrow> subs (foldl step constructor es) \<noteq> [])
      \<and> refetchCalls (foldl step constructor es)
          = length (subs (foldl step constructor es))
            + length (filter (\<lambda>e. e \<noteq> ClickRefresh) es)
      \<and> set (subs (foldl step constructor es))
          \<subseteq> set (disposedSubs (componentWillUnmount (foldl step constructor es))))"
proof -
  have guard: "isRefreshing v \<longrightarrow> refresh v = v \<and> refetchCalls (refresh v) = refetchCalls v"
    by (simp add: refresh_def)
  have dispose: "\<And>u. \<not> subs_disposed u \<Longrightarrow>
        set (subs u) \<subseteq> set (disposedSubs (componentWillUnmount u))
      \<and> subs (componentWillUnmount u) = []"
    by (simp add: componentWillUnmount_def subs_dispose_def)
  have traces: "\<forall>es. completesInFlight constructor es \<longrightarrow>
        length (subs (foldl step constructor es)) \<le> 1
      \<and> (isRefreshing (foldl step constructor es) \<longleftrightarrow> subs (foldl step constructor es) \<noteq> [])
      \<and> refetchCalls (foldl step constructor es)
          = length (subs (foldl step constructor es))
            + length (filter (\<lambda>e. e \<noteq> ClickRefresh) es)
      \<and> set (subs (foldl step constructor es))
          \<subseteq> set (disposedSubs (componentWillUnmount (foldl step constructor es)))"
  proof (intro allI impI)
    fix es
    assume "completesInFlight constructor es"
    from run_keeps [OF this] have k:
      "\<not> subs_disposed (foldl step constructor es)
       \<and> length (subs (foldl step constructor es)) \<le> 1
       \<and> (isRefreshing (foldl step constructor es) \<longleftrightarrow> subs (foldl step constructor es) \<noteq> [])
       \<and> refetchCalls (foldl step constructor es) + length (subs constructor)
           = refetchCalls constructor + length (subs (foldl step constructor es))
             + length (filter (\<lambda>e. e \<noteq> ClickRefresh) es)"
      by (simp add: constructor_def)
    then have "refetchCalls (foldl step constructor es)
          = length (subs (foldl step constructor es))
            + length (filter (\<lambda>e. e \<noteq> ClickRefresh) es)"
      by (simp add: constructor_def)
    with k dispose [of "foldl step constructor es"]
    show "length (subs (foldl step constructor es)) \<le> 1
      \<and> (isRefreshing (foldl step constructor es) \<longleftrightarrow> subs (foldl step constructor es) \<noteq> [])
      \<and> refetchCalls (foldl step constructor es)
          = length (subs (foldl step constructor es))
            + length (filter (\<lambda>e. e \<noteq> ClickRefresh) es)
      \<and> set (subs (foldl step constructor es))
          \<subseteq> set (disposedSubs (componentWillUnmount (foldl step constructor es)))"
      by blast
  qed
  from dispose [of v] have d: "\<not> subs_disposed v \<longrightarrow>
        set (subs v) \<subseteq> set (disposedSubs (componentWillUnmount v))
      \<and> subs (componentWillUnmount v) = []"
    by blast
  show ?thesis
    by (rule conjI [OF guard conjI [OF d traces]])
qed

text \<open>
  Two clicks call \<^verbatim>\<open>refetch\<close> once, and unmounting then disposes its subscription; a
  click, a second click, the completion and a third click call it twice.
\<close>

theorem refresh_not_reentered_witness:
  "isRefreshing (refresh constructor)
   \<and> refresh (refresh constructor) = refresh constructor
   \<and> refetchCalls (refresh (refresh constructor)) = 1
   \<and> disposedSubs (componentWillUnmount (refresh constructor)) = [0]
   \<and> subs (componentWillUnmount (refresh constructor)) = []
   \<and> completesInFlight constructor [ClickRefresh, ClickRefresh, RefetchCompleted 0, ClickRefresh]
   \<and> refetchCalls (foldl step constructor
        [ClickRefresh, ClickRefresh, RefetchCompleted 0, ClickRefresh]) = 2
   \<and> subs (foldl step constructor
        [ClickRefresh, ClickRefresh, RefetchCompleted 0, ClickRefresh]) = [1]"
  using refresh_not_reentered [of "refresh constructor"]
  by (simp add: refresh_def constructor_def subs_add_def Let_def componentWillUnmount_def
        subs_dispose_def refetchCallback_def subs_remove_def)

end
